theory Spec2Isabelle
  imports Complex_Main "HOL-Library.Char_ord" "HOL-Library.List_Lexorder"
begin

section \<open>Emotion recognition with Wav2Vec2: the script's own logic\<close>

text \<open>
  The script \<^verbatim>\<open>emotion_recognition_wav2vec2.py\<close> is a thin layer over torch, transformers
  and datasets. Its own logic is embedded here function by function; what the libraries
  compute (decoding audio, the encoder, the head's weights, the numeric value of a loss)
  is a parameter or a symbolic value. Floating-point samples are idealised as \<^typ>\<open>real\<close>.
\<close>

subsection \<open>Errors\<close>

text \<open>Every exception the modelled code can raise is a value of this type.\<close>

datatype error =
    ValueError            \<comment> \<open>\<^verbatim>\<open>list.index\<close> of an absent element\<close>
  | IndexError            \<comment> \<open>\<^verbatim>\<open>label_features[0]\<close> of an empty batch\<close>
  | PoolingNotDefined     \<comment> \<open>the \<^verbatim>\<open>Exception\<close> raised by \<^verbatim>\<open>merged_strategy\<close>\<close>
  | EmptyTimeAxis         \<comment> \<open>a reduction over a time axis of length 0\<close>
  | DecodeError string    \<comment> \<open>\<^verbatim>\<open>torchaudio.load\<close> failing on a path\<close>
  | SaveError string      \<comment> \<open>\<^verbatim>\<open>np.save\<close> failing on a file path\<close>
  | StackError            \<comment> \<open>\<^verbatim>\<open>torch.tensor\<close> on labels it cannot make one tensor of\<close>
  | LossError             \<comment> \<open>a torch loss function rejecting its arguments\<close>

subsection \<open>Label indexer\<close>

text \<open>
  \<^verbatim>\<open>label_list = train_dataset.unique(output_column); label_list.sort()\<close>.
  \<^verbatim>\<open>Dataset.unique\<close> keeps the first occurrence of every value; \<^verbatim>\<open>list.sort\<close> on
  strings is the lexicographic order of their characters.
\<close>

fun unique :: "'a list \<Rightarrow> 'a list" where
  "unique [] = []"
| "unique (x # xs) = x # unique (filter (\<lambda>y. y \<noteq> x) xs)"

definition label_list :: "string list \<Rightarrow> string list" where
  "label_list column = sort (unique column)"

text \<open>\<^verbatim>\<open>list.index(x)\<close>: the first position of \<open>x\<close>, \<^verbatim>\<open>ValueError\<close> when absent.\<close>

fun list_index :: "'a list \<Rightarrow> 'a \<Rightarrow> error + nat" where
  "list_index [] x = Inl ValueError"
| "list_index (y # ys) x =
     (if y = x then Inr 0
      else (case list_index ys x of Inl e \<Rightarrow> Inl e | Inr i \<Rightarrow> Inr (Suc i)))"

text \<open>
  \<^verbatim>\<open>
  def label_to_id(label, label_list):
      if len(label_list) > 0:
          return label_list.index(label) if label in label_list else -1
      return label
  \<close>
  The function returns an integer or, for the empty list, the label it was given. Its
  second parameter is written \<open>labels\<close> here: it is any list, not only the global
  vocabulary \<open>label_list\<close> that the script passes.
\<close>

datatype label_id = Index int | Raw string

definition label_to_id :: "string \<Rightarrow> string list \<Rightarrow> error + label_id" where
  "label_to_id label labels =
     (if length labels > 0 then
        (if label \<in> set labels then
           (case list_index labels label of Inl e \<Rightarrow> Inl e | Inr i \<Rightarrow> Inr (Index (int i)))
         else Inr (Index (- 1)))
      else Inr (Raw label))"

subsection \<open>Feature cache\<close>

text \<open>
  A list comprehension over a function that may raise: the first exception aborts the
  whole comprehension.
\<close>

fun map_raising :: "('a \<Rightarrow> error + 'b) \<Rightarrow> 'a list \<Rightarrow> error + 'b list" where
  "map_raising f [] = Inr []"
| "map_raising f (x # xs) =
     (case f x of
        Inl e \<Rightarrow> Inl e
      | Inr y \<Rightarrow> (case map_raising f xs of Inl e \<Rightarrow> Inl e | Inr ys \<Rightarrow> Inr (y # ys)))"

text \<open>
  A waveform is the sequence of samples \<^verbatim>\<open>speech_file_to_array_fn\<close> returns.
\<close>

type_synonym waveform = "real list"

text \<open>
  The disk and the numpy at hand, as far as \<^verbatim>\<open>ppf\<close> sees them: whether the directory
  \<^verbatim>\<open>./features\<close> can be written, whether \<^verbatim>\<open>np.save\<close> accepts waveforms of different
  lengths (numpy before 1.24 stores them as an object array, numpy from 1.24 on raises
  \<^verbatim>\<open>ValueError\<close>), and the array files by path. A file holds the sequence of waveforms
  that \<^verbatim>\<open>np.save\<close> was given; \<^verbatim>\<open>list(np.load(f))\<close> gives that sequence back. What a failed
  call leaves on disk is not modelled.
\<close>

record disk =
  features_dir :: bool
  saves_ragged :: bool
  files :: "string \<rightharpoonup> waveform list"

fun same_lengths :: "waveform list \<Rightarrow> bool" where
  "same_lengths [] = True"
| "same_lengths (w # ws) = list_all (\<lambda>v. length v = length w) ws"

definition np_save :: "disk \<Rightarrow> string \<Rightarrow> waveform list \<Rightarrow> error + disk" where
  "np_save d filepath arr =
     (if features_dir d \<and> (saves_ragged d \<or> same_lengths arr)
      then Inr (d\<lparr>files := (files d)(filepath \<mapsto> arr)\<rparr>)
      else Inl (SaveError filepath))"

text \<open>
  The first block of \<^verbatim>\<open>ppf(examples, split)\<close>, which binds \<^verbatim>\<open>speech_list\<close>:
  \<^verbatim>\<open>
      filepath = f'./features/speech_list_{split}.npy'
      if os.path.exists(filepath):
          with open(filepath, 'rb') as f:
              speech_list = np.load(f, allow_pickle=True)
          speech_list = list(speech_list)
      else:
          speech_list = [speech_file_to_array_fn(path) for path in tqdm(examples['path'])]
          np.save(filepath, speech_list, allow_pickle=True)
  \<close>
  \<^verbatim>\<open>speech_file_to_array_fn\<close> (torchaudio's decoding and resampling) is a parameter. The
  result is the list and the disk afterwards.
\<close>

definition ppf_speech_list ::
  "(string \<Rightarrow> error + waveform) \<Rightarrow> disk \<Rightarrow> string list \<Rightarrow> string \<Rightarrow>
   error + (waveform list \<times> disk)" where
  "ppf_speech_list speech_file_to_array_fn d paths split =
     (let filepath = ''./features/speech_list_'' @ split @ ''.npy'' in
      case files d filepath of
        Some arr \<Rightarrow> Inr (arr, d)
      | None \<Rightarrow>
          (case map_raising speech_file_to_array_fn paths of
             Inl e \<Rightarrow> Inl e
           | Inr speech_list \<Rightarrow>
               (case np_save d filepath speech_list of
                  Inl e \<Rightarrow> Inl e
                | Inr d' \<Rightarrow> Inr (speech_list, d'))))"

subsection \<open>Pooling strategy\<close>

text \<open>
  The hidden states are a tensor of shape (batch, time, hidden): a list of utterances,
  each a list of frames, each a list of \<open>hidden\<close> numbers. A reduction over \<^verbatim>\<open>dim=1\<close>
  folds the frames of each utterance element by element. A time axis of length 0 is not
  a value of this model: there \<^verbatim>\<open>torch.max\<close> raises, \<^verbatim>\<open>torch.mean\<close> gives NaN and
  \<^verbatim>\<open>torch.sum\<close> gives zeros of the hidden width, which a list of no frames does not
  record. Here it is the error \<^const>\<open>EmptyTimeAxis\<close> for all three, and every property
  below is about utterances of at least one frame.
\<close>

fun reduce_time :: "(real \<Rightarrow> real \<Rightarrow> real) \<Rightarrow> real list list \<Rightarrow> error + real list" where
  "reduce_time f [] = Inl EmptyTimeAxis"
| "reduce_time f (frame # frames) = Inr (foldl (map2 f) frame frames)"

definition torch_sum_dim1 :: "real list list list \<Rightarrow> error + real list list" where
  "torch_sum_dim1 hidden_states = map_raising (reduce_time (+)) hidden_states"

definition torch_mean_dim1 :: "real list list list \<Rightarrow> error + real list list" where
  "torch_mean_dim1 hidden_states =
     map_raising
       (\<lambda>frames. case reduce_time (+) frames of
           Inl e \<Rightarrow> Inl e
         | Inr summed \<Rightarrow> Inr (map (\<lambda>v. v / real (length frames)) summed))
       hidden_states"

definition torch_max_dim1 :: "real list list list \<Rightarrow> error + real list list" where
  "torch_max_dim1 hidden_states = map_raising (reduce_time max) hidden_states"

text \<open>
  \<^verbatim>\<open>
  def merged_strategy(self, hidden_states, mode="mean"):
      if mode == "mean":
          outputs = torch.mean(hidden_states, dim=1)
      elif mode == "sum":
          outputs = torch.sum(hidden_states, dim=1)
      elif mode == "max":
          outputs = torch.max(hidden_states, dim=1)[0]
      else:
          raise Exception("The pooling method hasn't been defined! ...")
      return outputs
  \<close>
\<close>

definition merged_strategy :: "real list list list \<Rightarrow> string \<Rightarrow> error + real list list" where
  "merged_strategy hidden_states mode =
     (if mode = ''mean'' then torch_mean_dim1 hidden_states
      else if mode = ''sum'' then torch_sum_dim1 hidden_states
      else if mode = ''max'' then torch_max_dim1 hidden_states
      else Inl PoolingNotDefined)"

subsection \<open>Classification model: loss selector\<close>

text \<open>
  The element types of a torch tensor. \<^verbatim>\<open>torch.float\<close> is float32, \<^verbatim>\<open>torch.double\<close> float64,
  \<^verbatim>\<open>torch.short\<close> int16, \<^verbatim>\<open>torch.int\<close> int32 and \<^verbatim>\<open>torch.long\<close> int64.
\<close>

datatype torch_dtype =
    torch_half | torch_bfloat16 | torch_float | torch_double
  | torch_cfloat | torch_cdouble
  | torch_uint8 | torch_int8 | torch_short | torch_int | torch_long
  | torch_bool

text \<open>The dtypes whose elements are integers: the unsigned and signed integer types of
  every width. This is the reading of "integer-typed labels"; the code's own test is
  written out in \<open>infer_problem_type\<close> below.\<close>

fun integer_typed :: "torch_dtype \<Rightarrow> bool" where
  "integer_typed torch_uint8 = True"
| "integer_typed torch_int8 = True"
| "integer_typed torch_short = True"
| "integer_typed torch_int = True"
| "integer_typed torch_long = True"
| "integer_typed _ = False"

text \<open>A tensor as far as this script looks at it: its dtype and its contents.\<close>

record 'v tensor =
  dtype :: torch_dtype
  content :: 'v

text \<open>
  The three loss functions of \<^verbatim>\<open>torch.nn\<close>, as the calls \<^verbatim>\<open>forward\<close> makes: each takes the
  logits and the labels and returns the loss, or raises when it rejects their shapes or
  dtypes. They are torch's, so they are parameters; \<open>'r\<close> is the type of a loss value.
\<close>

record ('v, 'r) torch_nn =
  MSELoss :: "real list list \<Rightarrow> 'v tensor \<Rightarrow> error + 'r"
  CrossEntropyLoss :: "real list list \<Rightarrow> 'v tensor \<Rightarrow> error + 'r"
  BCEWithLogitsLoss :: "real list list \<Rightarrow> 'v tensor \<Rightarrow> error + 'r"

text \<open>The configuration fields the model reads, and the model's own attributes set by
  \<^verbatim>\<open>__init__\<close> (\<^verbatim>\<open>self.num_labels = config.num_labels\<close>, \<^verbatim>\<open>self.pooling_mode = config.pooling_mode\<close>).\<close>

record config =
  config_num_labels :: int
  config_pooling_mode :: string
  problem_type :: "string option"
  use_return_dict :: bool

record model =
  num_labels :: int
  pooling_mode :: string
  config :: config

definition init :: "config \<Rightarrow> model" where
  "init c = \<lparr>num_labels = config_num_labels c, pooling_mode = config_pooling_mode c, config = c\<rparr>"

text \<open>What the encoder \<^verbatim>\<open>self.wav2vec2(...)\<close> returned: \<^verbatim>\<open>outputs[0]\<close>, \<^verbatim>\<open>outputs[2:]\<close>,
  \<^verbatim>\<open>outputs.hidden_states\<close> and \<^verbatim>\<open>outputs.attentions\<close>.\<close>

record 'x encoder_outputs =
  first :: "real list list list"
  from_2 :: "'x list"
  enc_hidden_states :: "'x option"
  enc_attentions :: "'x option"

datatype ('r, 'x) tuple_item = LossItem 'r | LogitsItem "real list list" | EncoderItem 'x

datatype ('r, 'x) forward_output =
    SpeechClassifierOutput
      (loss: "'r option") (logits: "real list list")
      (hidden_states: "'x option") (attentions: "'x option")
  | TupleOutput "('r, 'x) tuple_item list"

text \<open>
  Lines 293-299 of \<^verbatim>\<open>forward\<close>, run when labels are given:
  \<^verbatim>\<open>
            if self.config.problem_type is None:
                if self.num_labels == 1:
                    self.config.problem_type = "regression"
                elif self.num_labels > 1 and (labels.dtype == torch.long or labels.dtype == torch.int):
                    self.config.problem_type = "single_label_classification"
                else:
                    self.config.problem_type = "multi_label_classification"
  \<close>
\<close>

definition infer_problem_type :: "model \<Rightarrow> 'v tensor \<Rightarrow> model" where
  "infer_problem_type self labels =
     (if problem_type (config self) = None then
        (if num_labels self = 1 then
           self\<lparr>config := (config self)\<lparr>problem_type := Some ''regression''\<rparr>\<rparr>
         else if num_labels self > 1 \<and> (dtype labels = torch_long \<or> dtype labels = torch_int) then
           self\<lparr>config := (config self)\<lparr>problem_type := Some ''single_label_classification''\<rparr>\<rparr>
         else
           self\<lparr>config := (config self)\<lparr>problem_type := Some ''multi_label_classification''\<rparr>\<rparr>)
      else self)"

text \<open>
  Lines 301-309:
  \<^verbatim>\<open>
            if self.config.problem_type == "regression":
                loss_fct = MSELoss()
                loss = loss_fct(logits.view(-1, self.num_labels), labels)
            elif self.config.problem_type == "single_label_classification":
                loss_fct = CrossEntropyLoss()
                loss = loss_fct(logits.view(-1, self.num_labels), labels.view(-1))
            elif self.config.problem_type == "multi_label_classification":
                loss_fct = BCEWithLogitsLoss()
                loss = loss_fct(logits, labels)
  \<close>
  A field of \<open>nn\<close> stands for the whole call, views included. The value of a call
  becomes the loss and its exception propagates; the loss stays \<^verbatim>\<open>None\<close> for any other
  string.
\<close>

definition as_loss :: "error + 'r \<Rightarrow> error + 'r option" where
  "as_loss call = (case call of Inl e \<Rightarrow> Inl e | Inr v \<Rightarrow> Inr (Some v))"

definition compute_loss ::
  "('v, 'r) torch_nn \<Rightarrow> model \<Rightarrow> real list list \<Rightarrow> 'v tensor \<Rightarrow> error + 'r option" where
  "compute_loss nn self lgts labels =
     (if problem_type (config self) = Some ''regression'' then
        as_loss (MSELoss nn lgts labels)
      else if problem_type (config self) = Some ''single_label_classification'' then
        as_loss (CrossEntropyLoss nn lgts labels)
      else if problem_type (config self) = Some ''multi_label_classification'' then
        as_loss (BCEWithLogitsLoss nn lgts labels)
      else Inr None)"

text \<open>
  \<^verbatim>\<open>forward(self, input_values, ..., return_dict=None, labels=None)\<close>. The loss functions,
  the encoder and the classification head (dropout, linear, tanh, dropout, linear, with
  weights owned by the training framework) are parameters. The result is the model
  afterwards, since \<^verbatim>\<open>self.config.problem_type\<close> is assigned, and what the call returned or
  raised: an exception in the pooling leaves the model as it was, an exception in a loss
  call leaves the problem type assigned.
\<close>

definition forward ::
  "('v, 'r) torch_nn \<Rightarrow> ('i \<Rightarrow> bool \<Rightarrow> 'x encoder_outputs) \<Rightarrow> (real list list \<Rightarrow> real list list) \<Rightarrow>
   model \<Rightarrow> 'i \<Rightarrow> bool option \<Rightarrow> 'v tensor option \<Rightarrow> model \<times> (error + ('r, 'x) forward_output)" where
  "forward nn wav2vec2 classifier self input_values return_dict labels =
     (let return_dict = (case return_dict of Some r \<Rightarrow> r | None \<Rightarrow> use_return_dict (config self));
          outputs = wav2vec2 input_values return_dict
      in case merged_strategy (first outputs) (pooling_mode self) of
           Inl e \<Rightarrow> (self, Inl e)
         | Inr pooled \<Rightarrow>
             (let lgts = classifier pooled;
                  self' = (case labels of None \<Rightarrow> self | Some l \<Rightarrow> infer_problem_type self l)
              in case (case labels of None \<Rightarrow> Inr None | Some l \<Rightarrow> compute_loss nn self' lgts l) of
                   Inl e \<Rightarrow> (self', Inl e)
                 | Inr computed \<Rightarrow>
                     if \<not> return_dict then
                       (let output = LogitsItem lgts # map EncoderItem (from_2 outputs)
                        in (self', Inr (TupleOutput
                             (case computed of Some v \<Rightarrow> LossItem v # output | None \<Rightarrow> output))))
                     else
                       (self', Inr (SpeechClassifierOutput computed lgts
                             (enc_hidden_states outputs) (enc_attentions outputs)))))"

text \<open>What a caller reads off the returned value: the loss, if there is one, and the
  logits. The tuple form carries the loss as its first item only when there is one.\<close>

fun output_loss :: "('r, 'x) forward_output \<Rightarrow> 'r option" where
  "output_loss (SpeechClassifierOutput l _ _ _) = l"
| "output_loss (TupleOutput (LossItem v # _)) = Some v"
| "output_loss (TupleOutput _) = None"

fun output_logits :: "('r, 'x) forward_output \<Rightarrow> real list list option" where
  "output_logits (SpeechClassifierOutput _ g _ _) = Some g"
| "output_logits (TupleOutput (LossItem _ # LogitsItem g # _)) = Some g"
| "output_logits (TupleOutput (LogitsItem g # _)) = Some g"
| "output_logits (TupleOutput _) = None"

text \<open>The same for a pass that may have raised: its exception, or the loss it returned.\<close>

definition result_loss :: "error + ('r, 'x) forward_output \<Rightarrow> error + 'r option" where
  "result_loss r = (case r of Inl e \<Rightarrow> Inl e | Inr out \<Rightarrow> Inr (output_loss out))"

text \<open>
  The training loop, which is the framework's, calls \<^verbatim>\<open>forward\<close> on the same model object
  pass after pass; an exception ends the run. The result is the model after the run and
  what each pass that ran returned or raised.
\<close>

fun forward_passes ::
  "('v, 'r) torch_nn \<Rightarrow> ('i \<Rightarrow> bool \<Rightarrow> 'x encoder_outputs) \<Rightarrow> (real list list \<Rightarrow> real list list) \<Rightarrow>
   model \<Rightarrow> ('i \<times> bool option \<times> 'v tensor option) list \<Rightarrow>
   model \<times> (error + ('r, 'x) forward_output) list" where
  "forward_passes nn wav2vec2 classifier self [] = (self, [])"
| "forward_passes nn wav2vec2 classifier self ((input_values, return_dict, labels) # rest) =
     (case forward nn wav2vec2 classifier self input_values return_dict labels of
        (self', Inl e) \<Rightarrow> (self', [Inl e])
      | (self', Inr out) \<Rightarrow>
          (case forward_passes nn wav2vec2 classifier self' rest of
             (self'', results) \<Rightarrow> (self'', Inr out # results)))"

subsection \<open>Padding collator\<close>

text \<open>
  The label of one record as Python has it: an \<^verbatim>\<open>int\<close> (a class id from
  \<^const>\<open>label_to_id\<close>), a \<^verbatim>\<open>float\<close> (a regression target), a list of numbers (a multi-hot
  vector) or a \<^verbatim>\<open>str\<close> (what \<^const>\<open>label_to_id\<close> returns for an empty vocabulary).
\<close>

datatype py_label = PyInt int | PyFloat real | PyList "real list" | PyStr string

text \<open>\<^verbatim>\<open>isinstance(x, int)\<close>\<close>

fun isinstance_int :: "py_label \<Rightarrow> bool" where
  "isinstance_int (PyInt _) = True"
| "isinstance_int _ = False"

record 'f feature =
  input_values :: 'f
  labels :: py_label

record ('b, 'c) batch =
  padded :: 'b
  batch_labels :: "'c tensor"

text \<open>
  \<^verbatim>\<open>d_type = torch.long if isinstance(label_features[0], int) else torch.float\<close>
\<close>

definition d_type :: "py_label list \<Rightarrow> error + torch_dtype" where
  "d_type label_features =
     (case label_features of
        [] \<Rightarrow> Inl IndexError
      | l0 # _ \<Rightarrow> Inr (if isinstance_int l0 then torch_long else torch_float))"

text \<open>
  \<^verbatim>\<open>
    def __call__(self, features):
        input_features = [{"input_values": feature["input_values"]} for feature in features]
        label_features = [feature["labels"] for feature in features]
        d_type = torch.long if isinstance(label_features[0], int) else torch.float
        batch = self.processor.pad(input_features, ...)
        batch["labels"] = torch.tensor(label_features, dtype=d_type)
        return batch
  \<close>
  \<^verbatim>\<open>self.processor.pad\<close> and \<^verbatim>\<open>torch.tensor\<close> are parameters. \<open>torch_tensor\<close> takes the
  labels and the dtype and gives the contents of the tensor torch builds, converted to
  that dtype, or the exception torch raises (labels of different shapes, a string, an
  integer outside the dtype's range); the tensor it builds has the dtype it was asked for.
\<close>

definition DataCollatorCTCWithPadding_call ::
  "('f list \<Rightarrow> error + 'b) \<Rightarrow> (py_label list \<Rightarrow> torch_dtype \<Rightarrow> error + 'c) \<Rightarrow>
   'f feature list \<Rightarrow> error + ('b, 'c) batch" where
  "DataCollatorCTCWithPadding_call processor_pad torch_tensor features =
     (let input_features = map input_values features;
          label_features = map labels features
      in case d_type label_features of
           Inl e \<Rightarrow> Inl e
         | Inr d \<Rightarrow>
             (case processor_pad input_features of
                Inl e \<Rightarrow> Inl e
              | Inr b \<Rightarrow>
                  (case torch_tensor label_features d of
                     Inl e \<Rightarrow> Inl e
                   | Inr c \<Rightarrow> Inr \<lparr>padded = b, batch_labels = \<lparr>dtype = d, content = c\<rparr>\<rparr>)))"

subsection \<open>Stand-ins for the external collaborators\<close>

text \<open>
  Concrete stand-ins for what the libraries supply, for evaluating the model on inputs:
  a decoder that returns two samples of silence for every path, an encoder whose last
  hidden state is one utterance of three frames of width two, a head with four class
  logits, all zero, and a \<^verbatim>\<open>processor.pad\<close> and a \<^verbatim>\<open>torch.tensor\<close> that return what they
  are told to, for an input on which the result of the real call is known.
\<close>

definition silence :: "string \<Rightarrow> error + real list" where
  "silence path = Inr [0, 0]"

definition three_frames :: "unit \<Rightarrow> bool \<Rightarrow> unit encoder_outputs" where
  "three_frames iv rd =
     \<lparr>first = [[[1, 2], [3, 4], [5, 6]]], from_2 = [],
      enc_hidden_states = None, enc_attentions = None\<rparr>"

definition zero_logits :: "real list list \<Rightarrow> real list list" where
  "zero_logits pooled = [[0, 0, 0, 0]]"

definition pad_gives :: "'b \<Rightarrow> 'f list \<Rightarrow> error + 'b" where
  "pad_gives b input_features = Inr b"

definition tensor_gives :: "'c \<Rightarrow> py_label list \<Rightarrow> torch_dtype \<Rightarrow> error + 'c" where
  "tensor_gives c label_features d = Inr c"

section \<open>Verified properties\<close>

subsection \<open>Label indexer\<close>

lemma set_unique: "set (unique xs) = set xs"
  by (induction xs rule: unique.induct) auto

lemma distinct_unique: "distinct (unique xs)"
  by (induction xs rule: unique.induct) (auto simp: set_unique)

lemma label_list_sorted_set: "label_list column = sorted_list_of_set (set column)"
proof -
  have "sort (unique column) = sorted_list_of_set (set (unique column))"
    using distinct_unique [of column] by (simp add: sorted_list_of_set_sort_remdups distinct_remdups_id)
  then show ?thesis by (simp add: label_list_def set_unique)
qed

lemma list_index_first:
  "x \<in> set xs \<Longrightarrow> \<exists>i. list_index xs x = Inr i \<and> i < length xs \<and> xs ! i = x"
proof (induction xs)
  case Nil
  then show ?case by simp
next
  case (Cons y ys)
  show ?case
  proof (cases "y = x")
    case True
    then have "list_index (y # ys) x = Inr 0 \<and> 0 < length (y # ys) \<and> (y # ys) ! 0 = x"
      by simp
    then show ?thesis by (rule exI)
  next
    case False
    with Cons.prems have "x \<in> set ys" by simp
    then obtain i where i: "list_index ys x = Inr i" "i < length ys" "ys ! i = x"
      using Cons.IH by blast
    have "list_index (y # ys) x = Inr (Suc i)" using False i(1) by simp
    moreover have "Suc i < length (y # ys)" using i(2) by simp
    moreover have "(y # ys) ! Suc i = x" using i(3) by simp
    ultimately show ?thesis by blast
  qed
qed

lemma label_to_id_present:
  assumes "label \<in> set vocab"
  shows "\<exists>i. label_to_id label vocab = Inr (Index (int i)) \<and> i < length vocab \<and> vocab ! i = label"
proof -
  from list_index_first [OF assms]
  obtain i where i: "list_index vocab label = Inr i" "i < length vocab" "vocab ! i = label"
    by (elim exE conjE)
  from assms have "length vocab > 0" by (cases vocab) simp_all
  with assms i(1) have "label_to_id label vocab = Inr (Index (int i))"
    by (simp add: label_to_id_def)
  with i(2,3) show ?thesis by blast
qed

lemma label_to_id_absent:
  assumes "vocab \<noteq> []" "label \<notin> set vocab"
  shows "label_to_id label vocab = Inr (Index (- 1))"
  using assms by (simp add: label_to_id_def)

lemma example_vocabulary:
  "label_list [''happy'', ''sad'', ''happy'', ''angry''] = [''angry'', ''happy'', ''sad'']"
  by code_simp

lemma set_label_list: "set (label_list column) = set column"
  by (simp add: label_list_sorted_set)

text \<open>
  Claim C4, as amended. The vocabulary built from a column of label strings is the sorted
  list of its distinct labels, whatever their order of appearance. Over that vocabulary
  \<open>label_to_id\<close> returns the position of a label that is present; for a non-empty column
  it returns -1 for a label that is absent. The column happy, sad, happy, angry gives
  angry, happy, sad, with sad at 2 and unknown at -1.
\<close>

theorem label_vocabulary_and_ids:
  "label_list column = sorted_list_of_set (set column) \<and>
   (set column = set column' \<longrightarrow> label_list column = label_list column') \<and>
   (label \<in> set column \<longrightarrow>
      (\<exists>i. label_to_id label (label_list column) = Inr (Index (int i)) \<and>
           i < length (label_list column) \<and> label_list column ! i = label)) \<and>
   (column \<noteq> [] \<longrightarrow> label \<notin> set column \<longrightarrow>
      label_to_id label (label_list column) = Inr (Index (- 1))) \<and>
   label_list [''happy'', ''sad'', ''happy'', ''angry''] = [''angry'', ''happy'', ''sad''] \<and>
   label_to_id ''sad'' (label_list [''happy'', ''sad'', ''happy'', ''angry'']) = Inr (Index 2) \<and>
   label_to_id ''unknown'' (label_list [''happy'', ''sad'', ''happy'', ''angry'']) = Inr (Index (- 1))"
proof -
  have a: "label_list column = sorted_list_of_set (set column)"
    by (rule label_list_sorted_set)
  have b: "set column = set column' \<longrightarrow> label_list column = label_list column'"
  proof
    assume "set column = set column'"
    then have "sorted_list_of_set (set column) = sorted_list_of_set (set column')"
      by (rule arg_cong)
    then show "label_list column = label_list column'"
      by (simp only: label_list_sorted_set)
  qed
  have c: "label \<in> set column \<longrightarrow>
      (\<exists>i. label_to_id label (label_list column) = Inr (Index (int i)) \<and>
           i < length (label_list column) \<and> label_list column ! i = label)"
  proof
    assume "label \<in> set column"
    then have "label \<in> set (label_list column)" by (simp add: set_label_list)
    then show "\<exists>i. label_to_id label (label_list column) = Inr (Index (int i)) \<and>
           i < length (label_list column) \<and> label_list column ! i = label"
      by (rule label_to_id_present)
  qed
  have d: "column \<noteq> [] \<longrightarrow> label \<notin> set column \<longrightarrow>
      label_to_id label (label_list column) = Inr (Index (- 1))"
  proof (intro impI)
    assume ne: "column \<noteq> []" and absent: "label \<notin> set column"
    from ne have "set (label_list column) \<noteq> {}" by (simp add: set_label_list)
    then have "label_list column \<noteq> []" by auto
    moreover from absent have "label \<notin> set (label_list column)" by (simp add: set_label_list)
    ultimately show "label_to_id label (label_list column) = Inr (Index (- 1))"
      by (rule label_to_id_absent)
  qed
  have e: "label_to_id ''sad'' (label_list [''happy'', ''sad'', ''happy'', ''angry'']) = Inr (Index 2)"
    by (simp add: example_vocabulary label_to_id_def)
  have f: "label_to_id ''unknown'' (label_list [''happy'', ''sad'', ''happy'', ''angry'']) = Inr (Index (- 1))"
    by (simp add: example_vocabulary label_to_id_def)
  show ?thesis by (intro conjI a b c d example_vocabulary e f)
qed

theorem label_vocabulary_and_ids_witness:
  "label_list [''sad'', ''happy'', ''sad''] = label_list [''happy'', ''sad''] \<and>
   (\<exists>i. label_to_id ''sad'' (label_list [''sad'', ''happy'', ''sad'']) = Inr (Index (int i)) \<and>
        i < length (label_list [''sad'', ''happy'', ''sad'']) \<and>
        label_list [''sad'', ''happy'', ''sad''] ! i = ''sad'') \<and>
   label_to_id ''calm'' (label_list [''sad'', ''happy'', ''sad'']) = Inr (Index (- 1))"
proof -
  note t = label_vocabulary_and_ids [of "[''sad'', ''happy'', ''sad'']" "[''happy'', ''sad'']"]
  have s: "set [''sad'', ''happy'', ''sad''] = set [''happy'', ''sad'']" by auto
  have p: "''sad'' \<in> set [''sad'', ''happy'', ''sad'']" by simp
  have m: "''calm'' \<notin> set [''sad'', ''happy'', ''sad'']" by simp
  have n: "[''sad'', ''happy'', ''sad''] \<noteq> []" by simp
  have "label_list [''sad'', ''happy'', ''sad''] = label_list [''happy'', ''sad'']"
    by (rule t [THEN conjunct2, THEN conjunct1, rule_format, OF s])
  moreover have "\<exists>i. label_to_id ''sad'' (label_list [''sad'', ''happy'', ''sad'']) = Inr (Index (int i)) \<and>
        i < length (label_list [''sad'', ''happy'', ''sad'']) \<and>
        label_list [''sad'', ''happy'', ''sad''] ! i = ''sad''"
    by (rule t [THEN conjunct2, THEN conjunct2, THEN conjunct1, rule_format, OF p])
  moreover have "label_to_id ''calm'' (label_list [''sad'', ''happy'', ''sad'']) = Inr (Index (- 1))"
    by (rule t [THEN conjunct2, THEN conjunct2, THEN conjunct2, THEN conjunct1, rule_format, OF n m])
  ultimately show ?thesis by (intro conjI)
qed

text \<open>
  The claim as written fails for the vocabulary of an empty column: the absent label
  comes back itself, not -1.
\<close>

theorem label_to_id_empty_vocabulary_counterexample:
  "''unknown'' \<notin> set (label_list []) \<and>
   label_to_id ''unknown'' (label_list []) = Inr (Raw ''unknown'') \<and>
   label_to_id ''unknown'' (label_list []) \<noteq> Inr (Index (- 1))"
  by (simp add: label_list_def label_to_id_def)

text \<open>
  Claim C10. With the empty vocabulary \<open>label_to_id\<close> returns the label it was given,
  unchanged, for every label; only for a non-empty vocabulary is the result an integer,
  the position of the label when present and -1 otherwise.
\<close>

theorem label_to_id_empty_returns_label:
  "label_to_id label [] = Inr (Raw label) \<and>
   label_to_id label [] \<noteq> Inr (Index (- 1)) \<and>
   (vocab \<noteq> [] \<longrightarrow> (\<exists>i. label_to_id label vocab = Inr (Index i) \<and>
       (if label \<in> set vocab then 0 \<le> i \<and> nat i < length vocab \<and> vocab ! nat i = label
        else i = - 1)))"
proof -
  have a: "label_to_id label [] = Inr (Raw label)" by (simp add: label_to_id_def)
  have a': "label_to_id label [] \<noteq> Inr (Index (- 1))" by (simp add: label_to_id_def)
  have b: "\<exists>i. label_to_id label vocab = Inr (Index i) \<and>
       (if label \<in> set vocab then 0 \<le> i \<and> nat i < length vocab \<and> vocab ! nat i = label
        else i = - 1)"
    if ne: "vocab \<noteq> []"
  proof (cases "label \<in> set vocab")
    case True
    from label_to_id_present [OF True]
    obtain k where k: "label_to_id label vocab = Inr (Index (int k))" "k < length vocab" "vocab ! k = label"
      by (elim exE conjE)
    have "label_to_id label vocab = Inr (Index (int k)) \<and>
       (if label \<in> set vocab then 0 \<le> int k \<and> nat (int k) < length vocab \<and> vocab ! nat (int k) = label
        else int k = - 1)"
      using True k by simp
    then show ?thesis by (rule exI)
  next
    case False
    have "label_to_id label vocab = Inr (Index (- 1))"
      using ne False by (rule label_to_id_absent)
    with False have "label_to_id label vocab = Inr (Index (- 1)) \<and>
       (if label \<in> set vocab then 0 \<le> (- 1 :: int) \<and> nat (- 1) < length vocab \<and> vocab ! nat (- 1) = label
        else (- 1 :: int) = - 1)" by simp
    then show ?thesis by (rule exI)
  qed
  show ?thesis
  proof (intro conjI impI)
    show "label_to_id label [] = Inr (Raw label)" by (rule a)
  next
    show "label_to_id label [] \<noteq> Inr (Index (- 1))" by (rule a')
  next
    assume "vocab \<noteq> []"
    then show "\<exists>i. label_to_id label vocab = Inr (Index i) \<and>
       (if label \<in> set vocab then 0 \<le> i \<and> nat i < length vocab \<and> vocab ! nat i = label
        else i = - 1)"
      by (rule b)
  qed
qed

theorem label_to_id_empty_returns_label_witness:
  "label_to_id ''sad'' [] = Inr (Raw ''sad'') \<and>
   (\<exists>i. label_to_id ''sad'' [''angry'', ''sad''] = Inr (Index i) \<and> 0 \<le> i \<and>
        nat i < length [''angry'', ''sad''] \<and> [''angry'', ''sad''] ! nat i = ''sad'')"
proof -
  note t = label_to_id_empty_returns_label [of "''sad''" "[''angry'', ''sad'']"]
  have ne: "[''angry'', ''sad''] \<noteq> []" by simp
  have "label_to_id ''sad'' [] = Inr (Raw ''sad'')" by (rule t [THEN conjunct1])
  moreover from t [THEN conjunct2, THEN conjunct2, rule_format, OF ne]
  have "\<exists>i. label_to_id ''sad'' [''angry'', ''sad''] = Inr (Index i) \<and> 0 \<le> i \<and>
        nat i < length [''angry'', ''sad''] \<and> [''angry'', ''sad''] ! nat i = ''sad''"
    by simp
  ultimately show ?thesis by (rule conjI)
qed

subsection \<open>Feature cache\<close>

lemma map_raising_total:
  "\<forall>x \<in> set xs. f x = Inr (g x) \<Longrightarrow> map_raising f xs = Inr (map g xs)"
  by (induction xs) simp_all

lemma np_save_files:
  "np_save d fp ws = Inr d' \<Longrightarrow> d' = d\<lparr>files := (files d)(fp \<mapsto> ws)\<rparr>"
  by (simp add: np_save_def split: if_splits)

lemma ppf_speech_list_unfold:
  assumes "fp = ''./features/speech_list_'' @ split @ ''.npy''"
  shows "ppf_speech_list f d ps split =
     (case files d fp of
        Some arr \<Rightarrow> Inr (arr, d)
      | None \<Rightarrow>
          (case map_raising f ps of
             Inl e \<Rightarrow> Inl e
           | Inr ws \<Rightarrow>
               (case np_save d fp ws of
                  Inl e \<Rightarrow> Inl e
                | Inr d' \<Rightarrow> Inr (ws, d'))))"
  unfolding assms ppf_speech_list_def Let_def
  by (simp split: option.splits sum.splits)

text \<open>
  Claim C5 as written fails when a cache file for the split is already on disk: the
  file's contents are returned whatever the paths are. Here the file holds one waveform
  and two paths are given.
\<close>

theorem ppf_stale_cache_counterexample:
  "[''a.wav'', ''b.wav''] \<noteq> [] \<and>
   ppf_speech_list silence
     \<lparr>features_dir = True, saves_ragged = False,
      files = [''./features/speech_list_train.npy'' \<mapsto> [[1]]]\<rparr>
     [''a.wav'', ''b.wav''] ''train''
   = Inr ([[1]],
          \<lparr>features_dir = True, saves_ragged = False,
           files = [''./features/speech_list_train.npy'' \<mapsto> [[1]]]\<rparr>) \<and>
   length [[1 :: real]] \<noteq> length [''a.wav'', ''b.wav'']"
  by (simp add: ppf_speech_list_def)

text \<open>
  Claim C5, as amended. When no cache file for the split is on disk, every path \<open>p\<close>
  decodes, to \<open>decoded p\<close>, and \<^verbatim>\<open>np.save\<close> writes the list, the call returns the decodings
  of the paths in the order of the paths, one per path, and leaves that list in the cache
  file. When a cache file for the split is on disk, the call returns the file's contents
  and leaves the disk as it is, whatever the paths and the decoder are.
\<close>

theorem ppf_builds_one_waveform_per_path:
  "(files d (''./features/speech_list_'' @ split @ ''.npy'') = None \<longrightarrow>
    (\<forall>p \<in> set paths. speech_file_to_array_fn p = Inr (decoded p)) \<longrightarrow>
    np_save d (''./features/speech_list_'' @ split @ ''.npy'') (map decoded paths) = Inr d' \<longrightarrow>
      ppf_speech_list speech_file_to_array_fn d paths split = Inr (map decoded paths, d') \<and>
      length (map decoded paths) = length paths \<and>
      (\<forall>i < length paths. map decoded paths ! i = decoded (paths ! i)) \<and>
      files d' (''./features/speech_list_'' @ split @ ''.npy'') = Some (map decoded paths)) \<and>
   (files d (''./features/speech_list_'' @ split @ ''.npy'') = Some arr \<longrightarrow>
      ppf_speech_list speech_file_to_array_fn d paths split = Inr (arr, d))"
proof -
  define fp where "fp = ''./features/speech_list_'' @ split @ ''.npy''"
  note unfold = ppf_speech_list_unfold [OF fp_def]
  have miss: "ppf_speech_list speech_file_to_array_fn d paths split = Inr (map decoded paths, d') \<and>
      length (map decoded paths) = length paths \<and>
      (\<forall>i < length paths. map decoded paths ! i = decoded (paths ! i)) \<and>
      files d' fp = Some (map decoded paths)"
    if none: "files d fp = None"
      and dec: "\<forall>p \<in> set paths. speech_file_to_array_fn p = Inr (decoded p)"
      and sav: "np_save d fp (map decoded paths) = Inr d'"
  proof -
    from map_raising_total [OF dec]
    have "map_raising speech_file_to_array_fn paths = Inr (map decoded paths)" .
    then have "ppf_speech_list speech_file_to_array_fn d paths split = Inr (map decoded paths, d')"
      using none sav by (simp add: unfold)
    moreover from np_save_files [OF sav] have "files d' fp = Some (map decoded paths)" by simp
    ultimately show ?thesis by simp
  qed
  have hit: "ppf_speech_list speech_file_to_array_fn d paths split = Inr (arr, d)"
    if "files d fp = Some arr"
    using that by (simp add: unfold)
  from miss hit show ?thesis unfolding fp_def by blast
qed

theorem ppf_builds_one_waveform_per_path_witness:
  "ppf_speech_list (\<lambda>p. if p = ''a.wav'' then Inr [1, 2] else Inr [3, 4])
     \<lparr>features_dir = True, saves_ragged = False, files = Map.empty\<rparr>
     [''a.wav'', ''b.wav''] ''train''
   = Inr ([[1, 2], [3, 4]],
          \<lparr>features_dir = True, saves_ragged = False,
           files = [''./features/speech_list_train.npy'' \<mapsto> [[1, 2], [3, 4]]]\<rparr>) \<and>
   ppf_speech_list (\<lambda>p. Inl (DecodeError p))
     \<lparr>features_dir = True, saves_ragged = False,
      files = [''./features/speech_list_train.npy'' \<mapsto> [[1, 2], [3, 4]]]\<rparr>
     [''c.wav''] ''train''
   = Inr ([[1, 2], [3, 4]],
          \<lparr>features_dir = True, saves_ragged = False,
           files = [''./features/speech_list_train.npy'' \<mapsto> [[1, 2], [3, 4]]]\<rparr>)"
proof -
  let ?w = "\<lambda>p. if p = ''a.wav'' then [1, 2] else [3, 4 :: real]"
  let ?f = "\<lambda>p. if p = ''a.wav'' then Inr [1, 2] else (Inr [3, 4] :: error + waveform)"
  let ?g = "\<lambda>p. (Inl (DecodeError p) :: error + waveform)"
  let ?d = "\<lparr>features_dir = True, saves_ragged = False, files = Map.empty\<rparr>"
  let ?d' = "\<lparr>features_dir = True, saves_ragged = False,
              files = [''./features/speech_list_train.npy'' \<mapsto> [[1, 2], [3, 4 :: real]]]\<rparr>"
  have h1: "files ?d (''./features/speech_list_'' @ ''train'' @ ''.npy'') = None" by simp
  have h2: "\<forall>p \<in> set [''a.wav'', ''b.wav'']. ?f p = Inr (?w p)" by simp
  have h3: "np_save ?d (''./features/speech_list_'' @ ''train'' @ ''.npy'')
              (map ?w [''a.wav'', ''b.wav'']) = Inr ?d'"
    by (simp add: np_save_def)
  have h4: "files ?d' (''./features/speech_list_'' @ ''train'' @ ''.npy'') = Some [[1, 2], [3, 4]]"
    by simp
  have "ppf_speech_list ?f ?d [''a.wav'', ''b.wav''] ''train''
          = Inr (map ?w [''a.wav'', ''b.wav''], ?d')"
    using ppf_builds_one_waveform_per_path
      [where d = ?d and split = "''train''" and speech_file_to_array_fn = ?f
         and paths = "[''a.wav'', ''b.wav'']" and decoded = ?w and d' = ?d',
       THEN conjunct1, THEN mp, OF h1, THEN mp, OF h2, THEN mp, OF h3]
    by (rule conjunct1)
  then have "ppf_speech_list ?f ?d [''a.wav'', ''b.wav''] ''train'' = Inr ([[1, 2], [3, 4]], ?d')"
    by simp
  moreover have "ppf_speech_list ?g ?d' [''c.wav''] ''train'' = Inr ([[1, 2], [3, 4]], ?d')"
    by (rule ppf_builds_one_waveform_per_path
      [where d = ?d' and split = "''train''" and speech_file_to_array_fn = ?g
         and paths = "[''c.wav'']" and arr = "[[1, 2], [3, 4]]",
       THEN conjunct2, THEN mp, OF h4])
  ultimately show ?thesis by (rule conjI)
qed

text \<open>
  Claim C6. If a call for a split returns, a second call for the same split on the disk
  the first call left returns the same waveform sequence and leaves the disk as it is,
  whatever paths and whatever decoder it is given: it reads the file and decodes nothing.
\<close>

theorem ppf_second_call_reads_cache:
  assumes "ppf_speech_list speech_file_to_array_fn d paths split = Inr (speech_list, d')"
  shows "ppf_speech_list speech_file_to_array_fn' d' paths' split = Inr (speech_list, d') \<and>
         files d' (''./features/speech_list_'' @ split @ ''.npy'') = Some speech_list"
proof -
  define fp where "fp = ''./features/speech_list_'' @ split @ ''.npy''"
  note unfold = ppf_speech_list_unfold [OF fp_def]
  have "ppf_speech_list speech_file_to_array_fn' d' paths' split = Inr (speech_list, d') \<and>
        files d' fp = Some speech_list"
  proof (cases "files d fp")
    case (Some arr)
    with assms have "speech_list = arr" "d' = d"
      by (simp_all add: unfold)
    with Some show ?thesis by (simp add: unfold)
  next
    case None
    with assms obtain ws where ws: "map_raising speech_file_to_array_fn paths = Inr ws"
      by (cases "map_raising speech_file_to_array_fn paths") (simp_all add: unfold)
    with None assms obtain d1 where d1: "np_save d fp ws = Inr d1"
      by (cases "np_save d fp ws") (simp_all add: unfold)
    with None ws assms have e: "speech_list = ws" "d' = d1"
      by (auto simp add: unfold)
    from np_save_files [OF d1] e have "files d' fp = Some speech_list" by simp
    then show ?thesis by (simp add: unfold)
  qed
  then show ?thesis by (simp only: fp_def)
qed

theorem ppf_second_call_reads_cache_witness:
  "ppf_speech_list (\<lambda>p. Inr [1]) \<lparr>features_dir = True, saves_ragged = False, files = Map.empty\<rparr>
     [''a.wav''] ''eval''
     = Inr ([[1]], \<lparr>features_dir = True, saves_ragged = False,
                    files = [''./features/speech_list_eval.npy'' \<mapsto> [[1]]]\<rparr>) \<and>
   ppf_speech_list (\<lambda>p. Inl (DecodeError p))
     \<lparr>features_dir = True, saves_ragged = False,
      files = [''./features/speech_list_eval.npy'' \<mapsto> [[1]]]\<rparr>
     [''b.wav'', ''c.wav''] ''eval''
     = Inr ([[1]], \<lparr>features_dir = True, saves_ragged = False,
                    files = [''./features/speech_list_eval.npy'' \<mapsto> [[1]]]\<rparr>)"
proof -
  let ?d' = "\<lparr>features_dir = True, saves_ragged = False,
              files = [''./features/speech_list_eval.npy'' \<mapsto> [[1 :: real]]]\<rparr>"
  have first_call: "ppf_speech_list (\<lambda>p. Inr [1])
     \<lparr>features_dir = True, saves_ragged = False, files = Map.empty\<rparr>
     [''a.wav''] ''eval'' = Inr ([[1]], ?d')"
    by (simp add: ppf_speech_list_def np_save_def)
  from ppf_second_call_reads_cache [OF first_call, of "\<lambda>p. Inl (DecodeError p)" "[''b.wav'', ''c.wav'']"]
  have "ppf_speech_list (\<lambda>p. Inl (DecodeError p)) ?d' [''b.wav'', ''c.wav''] ''eval'' = Inr ([[1]], ?d')"
    by (rule conjunct1)
  with first_call show ?thesis by (rule conjI)
qed

subsection \<open>Pooling strategy: undefined modes\<close>

text \<open>
  Claim C3. For every mode other than mean, sum and max, \<open>merged_strategy\<close> raises its
  exception, whatever the hidden states \<open>hs\<close>: it returns no value and falls back to no mode.
\<close>

theorem merged_strategy_undefined_mode_raises:
  assumes "mode \<noteq> ''mean''" and "mode \<noteq> ''sum''" and "mode \<noteq> ''max''"
  shows "merged_strategy hs mode = Inl PoolingNotDefined \<and>
         (\<forall>outputs. merged_strategy hs mode \<noteq> Inr outputs)"
  using assms by (simp add: merged_strategy_def)

theorem merged_strategy_undefined_mode_raises_witness:
  "merged_strategy [[[1, 2], [3, 4], [5, 6]]] ''median'' = Inl PoolingNotDefined"
proof -
  have a: "''median'' \<noteq> ''mean''" and b: "''median'' \<noteq> ''sum''" and c: "''median'' \<noteq> ''max''"
    by simp_all
  from merged_strategy_undefined_mode_raises [OF a b c, of "[[[1, 2], [3, 4], [5, 6]]]"]
  show ?thesis by (rule conjunct1)
qed

subsection \<open>Loss selector\<close>

text \<open>What \<open>forward\<close> does once the pooling has returned, and when it has raised.\<close>

lemma forward_pooled:
  assumes "merged_strategy (first (encoder iv rd)) (pooling_mode self) = Inr pooled"
    and "rd = (case return_dict of Some r \<Rightarrow> r | None \<Rightarrow> use_return_dict (config self))"
    and "self' = (case lbls of None \<Rightarrow> self | Some l \<Rightarrow> infer_problem_type self l)"
    and "computed = (case lbls of None \<Rightarrow> Inr None | Some l \<Rightarrow> compute_loss nn self' (head pooled) l)"
  shows "forward nn encoder head self iv return_dict lbls =
     (self',
      case computed of
        Inl e \<Rightarrow> Inl e
      | Inr ls \<Rightarrow>
          Inr (if rd then
                 SpeechClassifierOutput ls (head pooled)
                   (enc_hidden_states (encoder iv rd)) (enc_attentions (encoder iv rd))
               else
                 TupleOutput
                   (case ls of
                      Some v \<Rightarrow> LossItem v # LogitsItem (head pooled) # map EncoderItem (from_2 (encoder iv rd))
                    | None \<Rightarrow> LogitsItem (head pooled) # map EncoderItem (from_2 (encoder iv rd)))))"
proof -
  have "merged_strategy
          (first (encoder iv (case return_dict of Some r \<Rightarrow> r | None \<Rightarrow> use_return_dict (config self))))
          (pooling_mode self) = Inr pooled"
    using assms(1) by (simp only: assms(2))
  then show ?thesis
    unfolding forward_def Let_def assms(2,3,4)
    by (simp split: option.splits sum.splits)
qed

lemma forward_pooled_observed:
  assumes "merged_strategy (first (encoder iv rd)) (pooling_mode self) = Inr pooled"
    and "rd = (case return_dict of Some r \<Rightarrow> r | None \<Rightarrow> use_return_dict (config self))"
    and "forward nn encoder head self iv return_dict lbls = (self', r)"
  shows "self' = (case lbls of None \<Rightarrow> self | Some l \<Rightarrow> infer_problem_type self l)"
    and "result_loss r =
           (case lbls of None \<Rightarrow> Inr None | Some l \<Rightarrow> compute_loss nn self' (head pooled) l)"
    and "r = Inr out \<Longrightarrow> output_logits out = Some (head pooled)"
proof -
  define s1 where "s1 = (case lbls of None \<Rightarrow> self | Some l \<Rightarrow> infer_problem_type self l)"
  define computed where
    "computed = (case lbls of None \<Rightarrow> Inr None | Some l \<Rightarrow> compute_loss nn s1 (head pooled) l)"
  note eq = forward_pooled [where encoder = encoder and head = head and nn = nn,
      OF assms(1,2) s1_def computed_def]
  from eq assms(3) have s: "self' = s1" by simp
  from eq assms(3) have r: "r = (case computed of
        Inl e \<Rightarrow> Inl e
      | Inr ls \<Rightarrow>
          Inr (if rd then
                 SpeechClassifierOutput ls (head pooled)
                   (enc_hidden_states (encoder iv rd)) (enc_attentions (encoder iv rd))
               else
                 TupleOutput
                   (case ls of
                      Some v \<Rightarrow> LossItem v # LogitsItem (head pooled) # map EncoderItem (from_2 (encoder iv rd))
                    | None \<Rightarrow> LogitsItem (head pooled) # map EncoderItem (from_2 (encoder iv rd)))))"
    by simp
  show "self' = (case lbls of None \<Rightarrow> self | Some l \<Rightarrow> infer_problem_type self l)"
    using s by (simp add: s1_def)
  have "result_loss r = computed"
    unfolding r result_loss_def
    by (cases computed; cases rd) (auto split: option.splits)
  then show "result_loss r =
           (case lbls of None \<Rightarrow> Inr None | Some l \<Rightarrow> compute_loss nn self' (head pooled) l)"
    unfolding computed_def s .
  show "output_logits out = Some (head pooled)" if "r = Inr out"
    using that unfolding r
    by (cases computed; cases rd) (auto split: option.splits)
qed

lemma forward_pooling_raised:
  assumes "merged_strategy
             (first (encoder iv (case return_dict of Some r \<Rightarrow> r | None \<Rightarrow> use_return_dict (config self))))
             (pooling_mode self) = Inl e"
  shows "forward nn encoder head self iv return_dict lbls = (self, Inl e)"
  using assms unfolding forward_def Let_def by simp

lemma infer_problem_type_configured:
  "problem_type (config self) = Some pt \<Longrightarrow> infer_problem_type self l = self"
  by (simp add: infer_problem_type_def)

lemma infer_problem_type_unconfigured:
  "problem_type (config self) = None \<Longrightarrow>
   problem_type (config (infer_problem_type self l)) =
     Some (if num_labels self = 1 then ''regression''
           else if num_labels self > 1 \<and> (dtype l = torch_long \<or> dtype l = torch_int)
           then ''single_label_classification''
           else ''multi_label_classification'')"
  by (simp add: infer_problem_type_def)

text \<open>
  Claim C1 as written fails for integer dtypes other than \<^verbatim>\<open>torch.long\<close> and \<^verbatim>\<open>torch.int\<close>:
  with 4 classes and a label held as a 16-bit integer, the problem type selected and
  stored is the multi-label one.
\<close>

theorem forward_int16_labels_counterexample:
  "integer_typed torch_short \<and>
   infer_problem_type
     \<lparr>num_labels = 4, pooling_mode = ''mean'',
      config = \<lparr>config_num_labels = 4, config_pooling_mode = ''mean'', problem_type = None,
                use_return_dict = True\<rparr>\<rparr>
     \<lparr>dtype = torch_short, content = [2 :: int]\<rparr>
   = \<lparr>num_labels = 4, pooling_mode = ''mean'',
      config = \<lparr>config_num_labels = 4, config_pooling_mode = ''mean'',
                problem_type = Some ''multi_label_classification'', use_return_dict = True\<rparr>\<rparr>"
  by (simp add: infer_problem_type_def)

text \<open>
  Claim C1, as amended. In a forward pass with labels and no configured problem type,
  once the pooling has returned: exactly one output class selects regression, and the
  pass returns as its loss what \<^verbatim>\<open>MSELoss\<close> returns on the logits and the labels, or raises
  what it raises; more than one class with labels of dtype \<^verbatim>\<open>torch.long\<close> or \<^verbatim>\<open>torch.int\<close>
  selects single-label classification and \<^verbatim>\<open>CrossEntropyLoss\<close> in the same way; more than
  one class with labels of any other dtype selects multi-label classification and
  \<^verbatim>\<open>BCEWithLogitsLoss\<close>. The selected type is stored in the model whether the loss call
  returns or raises, and a pass that returns carries the head's logits.
\<close>

theorem forward_selects_loss:
  assumes "problem_type (config self) = None"
    and "merged_strategy
           (first (encoder iv (case return_dict of Some r \<Rightarrow> r | None \<Rightarrow> use_return_dict (config self))))
           (pooling_mode self) = Inr pooled"
    and "forward nn encoder head self iv return_dict (Some lbls) = (self', r)"
  shows "(num_labels self = 1 \<longrightarrow>
            problem_type (config self') = Some ''regression'' \<and>
            result_loss r = as_loss (MSELoss nn (head pooled) lbls)) \<and>
         (num_labels self > 1 \<and> (dtype lbls = torch_long \<or> dtype lbls = torch_int) \<longrightarrow>
            problem_type (config self') = Some ''single_label_classification'' \<and>
            result_loss r = as_loss (CrossEntropyLoss nn (head pooled) lbls)) \<and>
         (num_labels self > 1 \<and> dtype lbls \<noteq> torch_long \<and> dtype lbls \<noteq> torch_int \<longrightarrow>
            problem_type (config self') = Some ''multi_label_classification'' \<and>
            result_loss r = as_loss (BCEWithLogitsLoss nn (head pooled) lbls)) \<and>
         (\<forall>out. r = Inr out \<longrightarrow> output_logits out = Some (head pooled))"
proof -
  note obs = forward_pooled_observed [where encoder = encoder and head = head and nn = nn,
      OF assms(2) refl assms(3)]
  from obs(1) have s: "self' = infer_problem_type self lbls" by simp
  from obs(2) have l: "result_loss r = compute_loss nn self' (head pooled) lbls" by simp
  note pt = infer_problem_type_unconfigured [OF assms(1), of lbls, folded s]
  have a: "num_labels self = 1 \<longrightarrow>
            problem_type (config self') = Some ''regression'' \<and>
            result_loss r = as_loss (MSELoss nn (head pooled) lbls)"
    using pt by (simp add: l compute_loss_def)
  have b: "num_labels self > 1 \<and> (dtype lbls = torch_long \<or> dtype lbls = torch_int) \<longrightarrow>
            problem_type (config self') = Some ''single_label_classification'' \<and>
            result_loss r = as_loss (CrossEntropyLoss nn (head pooled) lbls)"
    using pt by (auto simp add: l compute_loss_def)
  have c: "num_labels self > 1 \<and> dtype lbls \<noteq> torch_long \<and> dtype lbls \<noteq> torch_int \<longrightarrow>
            problem_type (config self') = Some ''multi_label_classification'' \<and>
            result_loss r = as_loss (BCEWithLogitsLoss nn (head pooled) lbls)"
    using pt by (auto simp add: l compute_loss_def)
  have d: "\<forall>out. r = Inr out \<longrightarrow> output_logits out = Some (head pooled)"
    using obs(3) by blast
  show ?thesis by (intro conjI a b c d)
qed

theorem forward_selects_loss_witness:
  "\<forall>nn :: (int list, real) torch_nn.
     problem_type (config (fst (forward nn three_frames zero_logits
        (init \<lparr>config_num_labels = 4, config_pooling_mode = ''mean'', problem_type = None,
               use_return_dict = True\<rparr>)
        () None (Some \<lparr>dtype = torch_long, content = [2]\<rparr>))))
       = Some ''single_label_classification'' \<and>
     result_loss (snd (forward nn three_frames zero_logits
        (init \<lparr>config_num_labels = 4, config_pooling_mode = ''mean'', problem_type = None,
               use_return_dict = True\<rparr>)
        () None (Some \<lparr>dtype = torch_long, content = [2]\<rparr>)))
       = as_loss (CrossEntropyLoss nn [[0, 0, 0, 0]] \<lparr>dtype = torch_long, content = [2]\<rparr>)"
proof
  fix nn :: "(int list, real) torch_nn"
  let ?self = "init \<lparr>config_num_labels = 4, config_pooling_mode = ''mean'', problem_type = None,
               use_return_dict = True\<rparr>"
  let ?lbls = "\<lparr>dtype = torch_long, content = [2 :: int]\<rparr>"
  let ?run = "forward nn three_frames zero_logits ?self () None (Some ?lbls)"
  have h1: "problem_type (config ?self) = None" by (simp add: init_def)
  have h2: "merged_strategy
           (first (three_frames () (case None of Some r \<Rightarrow> r | None \<Rightarrow> use_return_dict (config ?self))))
           (pooling_mode ?self) = Inr [[3, 4]]"
    by (simp add: init_def three_frames_def merged_strategy_def torch_mean_dim1_def)
  have h3: "?run = (fst ?run, snd ?run)" by simp
  from forward_selects_loss [where encoder = three_frames and head = zero_logits and nn = nn
      and iv = "()" and return_dict = None and lbls = ?lbls, OF h1 h2 h3]
  have "num_labels ?self > 1 \<and> (dtype ?lbls = torch_long \<or> dtype ?lbls = torch_int) \<longrightarrow>
            problem_type (config (fst ?run)) = Some ''single_label_classification'' \<and>
            result_loss (snd ?run) = as_loss (CrossEntropyLoss nn (zero_logits [[3, 4]]) ?lbls)"
    by (elim conjE)
  moreover have "num_labels ?self > 1 \<and> (dtype ?lbls = torch_long \<or> dtype ?lbls = torch_int)"
    by (simp add: init_def)
  ultimately have "problem_type (config (fst ?run)) = Some ''single_label_classification'' \<and>
            result_loss (snd ?run) = as_loss (CrossEntropyLoss nn (zero_logits [[3, 4]]) ?lbls)"
    by (rule mp)
  then show "problem_type (config (fst ?run)) = Some ''single_label_classification'' \<and>
     result_loss (snd ?run) = as_loss (CrossEntropyLoss nn [[0, 0, 0, 0]] ?lbls)"
    by (simp add: zero_logits_def)
qed

text \<open>
  Claim C7. In a forward pass without labels that reaches the loss selector (the pooling
  has returned), no loss is computed: the call returns, the model is unchanged, the
  returned value carries no loss and carries the logits. In its dataclass form the loss
  field is \<open>None\<close>; in its tuple form the logits come first and no loss item precedes them.
  This holds whatever the loss functions are: none is called.
\<close>

theorem forward_without_labels_has_no_loss:
  assumes "rd = (case return_dict of Some r \<Rightarrow> r | None \<Rightarrow> use_return_dict (config self))"
    and "merged_strategy (first (encoder iv rd)) (pooling_mode self) = Inr pooled"
  shows "\<exists>out. forward nn encoder head self iv return_dict None = (self, Inr out) \<and>
           output_loss out = None \<and>
           output_logits out = Some (head pooled) \<and>
           out = (if rd then
                    SpeechClassifierOutput None (head pooled)
                      (enc_hidden_states (encoder iv rd)) (enc_attentions (encoder iv rd))
                  else
                    TupleOutput (LogitsItem (head pooled) # map EncoderItem (from_2 (encoder iv rd))))"
proof -
  have eq: "forward nn encoder head self iv return_dict None =
     (self,
      case Inr None of
        Inl e \<Rightarrow> Inl e
      | Inr ls \<Rightarrow>
          Inr (if rd then
                 SpeechClassifierOutput ls (head pooled)
                   (enc_hidden_states (encoder iv rd)) (enc_attentions (encoder iv rd))
               else
                 TupleOutput
                   (case ls of
                      Some v \<Rightarrow> LossItem v # LogitsItem (head pooled) # map EncoderItem (from_2 (encoder iv rd))
                    | None \<Rightarrow> LogitsItem (head pooled) # map EncoderItem (from_2 (encoder iv rd)))))"
    by (rule forward_pooled [where encoder = encoder and head = head and lbls = None and nn = nn,
          OF assms(2,1)]) simp_all
  show ?thesis
  proof (cases rd)
    case True
    with eq show ?thesis by simp
  next
    case False
    with eq show ?thesis by simp
  qed
qed

theorem forward_without_labels_has_no_loss_witness:
  "\<forall>nn :: (unit, unit) torch_nn.
     forward nn three_frames (map (map (\<lambda>v. 2 * v)))
        (init \<lparr>config_num_labels = 2, config_pooling_mode = ''max'', problem_type = None,
               use_return_dict = True\<rparr>)
        () None None
     = (init \<lparr>config_num_labels = 2, config_pooling_mode = ''max'', problem_type = None,
               use_return_dict = True\<rparr>,
        Inr (SpeechClassifierOutput None [[10, 12]] None None))"
proof
  fix nn :: "(unit, unit) torch_nn"
  let ?head = "map (map (\<lambda>v :: real. 2 * v))"
  let ?self = "init \<lparr>config_num_labels = 2, config_pooling_mode = ''max'', problem_type = None,
               use_return_dict = True\<rparr>"
  have h1: "True = (case None of Some r \<Rightarrow> r | None \<Rightarrow> use_return_dict (config ?self))"
    by (simp add: init_def)
  have h2: "merged_strategy (first (three_frames () True)) (pooling_mode ?self) = Inr [[5, 6]]"
    by (simp add: init_def three_frames_def merged_strategy_def torch_max_dim1_def)
  from forward_without_labels_has_no_loss [where encoder = three_frames and head = ?head
      and iv = "()" and return_dict = None and nn = nn, OF h1 h2]
  obtain out :: "(unit, unit) forward_output"
    where o: "forward nn three_frames ?head ?self () None None = (?self, Inr out)"
    and f: "out = (if True then
                    SpeechClassifierOutput None (?head [[5, 6]])
                      (enc_hidden_states (three_frames () True)) (enc_attentions (three_frames () True))
                  else
                    TupleOutput (LogitsItem (?head [[5, 6]]) # map EncoderItem (from_2 (three_frames () True))))"
    by (elim exE conjE)
  from f have "out = SpeechClassifierOutput None [[10, 12]] None None"
    by (simp add: three_frames_def)
  with o show "forward nn three_frames ?head ?self () None None
     = (?self, Inr (SpeechClassifierOutput None [[10, 12]] None None))"
    by simp
qed

subsection \<open>Problem type: inferred once\<close>

lemma compute_loss_by_type:
  "problem_type (config self) = Some pt \<Longrightarrow>
   compute_loss nn self g l =
     (if pt = ''regression'' then as_loss (MSELoss nn g l)
      else if pt = ''single_label_classification'' then as_loss (CrossEntropyLoss nn g l)
      else if pt = ''multi_label_classification'' then as_loss (BCEWithLogitsLoss nn g l)
      else Inr None)"
  by (simp add: compute_loss_def)

lemma forward_configured:
  assumes "problem_type (config self) = Some pt"
    and "forward nn encoder head self iv return_dict lbls = (self', r)"
  shows "self' = self"
proof (cases "merged_strategy
           (first (encoder iv (case return_dict of Some r \<Rightarrow> r | None \<Rightarrow> use_return_dict (config self))))
           (pooling_mode self)")
  case (Inl e)
  from forward_pooling_raised [where encoder = encoder and iv = iv and return_dict = return_dict
      and self = self and nn = nn and head = head and lbls = lbls, OF Inl] assms(2)
  show ?thesis by simp
next
  case (Inr pooled)
  from forward_pooled_observed(1) [where encoder = encoder and head = head and nn = nn,
      OF Inr refl assms(2)]
  show ?thesis
    using infer_problem_type_configured [OF assms(1)] by (cases lbls) simp_all
qed

lemma forward_passes_nonempty:
  "passes \<noteq> [] \<Longrightarrow> snd (forward_passes nn encoder head self passes) \<noteq> []"
proof (cases passes)
  case Nil
  assume "passes \<noteq> []"
  with Nil show ?thesis by simp
next
  case (Cons pass rest)
  obtain iv return_dict lbls where pass: "pass = (iv, return_dict, lbls)"
    by (cases pass)
  obtain s1 r where f: "forward nn encoder head self iv return_dict lbls = (s1, r)"
    by (cases "forward nn encoder head self iv return_dict lbls")
  show ?thesis
    unfolding Cons pass
    by (cases r) (simp_all add: f split: prod.splits)
qed

lemma forward_passes_configured:
  assumes "problem_type (config self) = Some pt"
    and "forward_passes nn encoder head self passes = (self', rs)"
  shows "self' = self \<and> length rs \<le> length passes \<and>
         (\<forall>k < length rs. \<forall>iv return_dict lbls pooled.
            passes ! k = (iv, return_dict, lbls) \<longrightarrow>
            merged_strategy
              (first (encoder iv (case return_dict of Some r \<Rightarrow> r | None \<Rightarrow> use_return_dict (config self))))
              (pooling_mode self) = Inr pooled \<longrightarrow>
            result_loss (rs ! k) =
              (case lbls of None \<Rightarrow> Inr None | Some l \<Rightarrow> compute_loss nn self (head pooled) l))"
  using assms(2)
proof (induction passes arbitrary: rs self')
  case Nil
  then show ?case by simp
next
  case (Cons pass rest)
  obtain iv0 rd0 lbls0 where pass: "pass = (iv0, rd0, lbls0)"
    by (cases pass)
  obtain s1 r where f: "forward nn encoder head self iv0 rd0 lbls0 = (s1, r)"
    by (cases "forward nn encoder head self iv0 rd0 lbls0")
  from forward_configured [OF assms(1) f] have s1: "s1 = self" .
  from f s1 have f': "forward nn encoder head self iv0 rd0 lbls0 = (self, r)" by simp
  have head_pass: "result_loss r =
              (case lbls0 of None \<Rightarrow> Inr None | Some l \<Rightarrow> compute_loss nn self (head pooled) l)"
    if "merged_strategy
              (first (encoder iv0 (case rd0 of Some r \<Rightarrow> r | None \<Rightarrow> use_return_dict (config self))))
              (pooling_mode self) = Inr pooled" for pooled
    by (rule forward_pooled_observed(2) [where encoder = encoder and head = head and nn = nn,
        OF that refl f'])
  show ?case
  proof (cases r)
    case (Inl e)
    with Cons.prems f s1 have e: "self' = self" "rs = [Inl e]"
      by (simp_all add: pass)
    have "\<forall>k < length rs. \<forall>iv return_dict lbls pooled.
            (pass # rest) ! k = (iv, return_dict, lbls) \<longrightarrow>
            merged_strategy
              (first (encoder iv (case return_dict of Some r \<Rightarrow> r | None \<Rightarrow> use_return_dict (config self))))
              (pooling_mode self) = Inr pooled \<longrightarrow>
            result_loss (rs ! k) =
              (case lbls of None \<Rightarrow> Inr None | Some l \<Rightarrow> compute_loss nn self (head pooled) l)"
    proof (intro allI impI)
      fix k iv return_dict lbls pooled
      assume k: "k < length rs" and p: "(pass # rest) ! k = (iv, return_dict, lbls)"
        and m: "merged_strategy
              (first (encoder iv (case return_dict of Some r \<Rightarrow> r | None \<Rightarrow> use_return_dict (config self))))
              (pooling_mode self) = Inr pooled"
      from k e(2) have k0: "k = 0" by simp
      with p pass have same: "iv = iv0" "return_dict = rd0" "lbls = lbls0" by simp_all
      from head_pass [of pooled] m same Inl e(2) k0
      show "result_loss (rs ! k) =
              (case lbls of None \<Rightarrow> Inr None | Some l \<Rightarrow> compute_loss nn self (head pooled) l)"
        by simp
    qed
    with e show ?thesis by simp
  next
    case (Inr out)
    obtain s2 results where rec: "forward_passes nn encoder head self rest = (s2, results)"
      by (cases "forward_passes nn encoder head self rest")
    with Cons.prems f s1 Inr have e: "self' = s2" "rs = Inr out # results"
      by (simp_all add: pass)
    from Cons.IH [OF rec] have ih: "s2 = self" "length results \<le> length rest"
      "\<forall>k < length results. \<forall>iv return_dict lbls pooled.
            rest ! k = (iv, return_dict, lbls) \<longrightarrow>
            merged_strategy
              (first (encoder iv (case return_dict of Some r \<Rightarrow> r | None \<Rightarrow> use_return_dict (config self))))
              (pooling_mode self) = Inr pooled \<longrightarrow>
            result_loss (results ! k) =
              (case lbls of None \<Rightarrow> Inr None | Some l \<Rightarrow> compute_loss nn self (head pooled) l)"
      by simp_all
    have "\<forall>k < length rs. \<forall>iv return_dict lbls pooled.
            (pass # rest) ! k = (iv, return_dict, lbls) \<longrightarrow>
            merged_strategy
              (first (encoder iv (case return_dict of Some r \<Rightarrow> r | None \<Rightarrow> use_return_dict (config self))))
              (pooling_mode self) = Inr pooled \<longrightarrow>
            result_loss (rs ! k) =
              (case lbls of None \<Rightarrow> Inr None | Some l \<Rightarrow> compute_loss nn self (head pooled) l)"
    proof (intro allI impI)
      fix k iv return_dict lbls pooled
      assume k: "k < length rs" and p: "(pass # rest) ! k = (iv, return_dict, lbls)"
        and m: "merged_strategy
              (first (encoder iv (case return_dict of Some r \<Rightarrow> r | None \<Rightarrow> use_return_dict (config self))))
              (pooling_mode self) = Inr pooled"
      show "result_loss (rs ! k) =
              (case lbls of None \<Rightarrow> Inr None | Some l \<Rightarrow> compute_loss nn self (head pooled) l)"
      proof (cases k)
        case 0
        with p pass have same: "iv = iv0" "return_dict = rd0" "lbls = lbls0" by simp_all
        from head_pass [of pooled] m same Inr e(2) 0 show ?thesis by simp
      next
        case (Suc j)
        with k e(2) have j: "j < length results" by simp
        from p Suc have pj: "rest ! j = (iv, return_dict, lbls)" by simp
        from ih(3) [rule_format, OF j pj m] show ?thesis by (simp add: e(2) Suc)
      qed
    qed
    with e ih(1,2) show ?thesis by simp
  qed
qed

text \<open>
  Claim C9. The first forward pass with labels on a model with no configured problem type
  that reaches the loss selector stores the type \<open>pt\<close> inferred from the number of classes
  and the labels' dtype, whether its own loss call returns or raises. Every later pass of
  the run leaves the model as it is, so the type is never inferred again. A later pass
  without labels has no loss. A later pass with labels, whatever their dtype, returns as
  its loss what the loss function of the stored type returns on its logits and labels, or
  raises what that function raises: \<^verbatim>\<open>MSELoss\<close> for regression, \<^verbatim>\<open>CrossEntropyLoss\<close> for
  single-label classification, \<^verbatim>\<open>BCEWithLogitsLoss\<close> for multi-label classification.
\<close>

theorem problem_type_inferred_once:
  assumes "problem_type (config self) = None"
    and "merged_strategy
           (first (encoder iv (case return_dict of Some r \<Rightarrow> r | None \<Rightarrow> use_return_dict (config self))))
           (pooling_mode self) = Inr pooled"
    and "forward nn encoder head self iv return_dict (Some lbls) = (self1, r1)"
    and "forward_passes nn encoder head self1 later = (self2, rs)"
    and "pt = (if num_labels self = 1 then ''regression''
               else if num_labels self > 1 \<and> (dtype lbls = torch_long \<or> dtype lbls = torch_int)
               then ''single_label_classification''
               else ''multi_label_classification'')"
  shows "problem_type (config self1) = Some pt \<and>
         self2 = self1 \<and> length rs \<le> length later \<and>
         (\<forall>k < length rs. \<forall>iv' return_dict' lbls' pooled'.
            later ! k = (iv', return_dict', lbls') \<longrightarrow>
            merged_strategy
              (first (encoder iv'
                 (case return_dict' of Some r \<Rightarrow> r | None \<Rightarrow> use_return_dict (config self1))))
              (pooling_mode self1) = Inr pooled' \<longrightarrow>
            result_loss (rs ! k) =
              (case lbls' of
                 None \<Rightarrow> Inr None
               | Some l \<Rightarrow>
                   if pt = ''regression'' then as_loss (MSELoss nn (head pooled') l)
                   else if pt = ''single_label_classification''
                   then as_loss (CrossEntropyLoss nn (head pooled') l)
                   else as_loss (BCEWithLogitsLoss nn (head pooled') l)))"
proof -
  from forward_pooled_observed(1) [where encoder = encoder and head = head and nn = nn,
      OF assms(2) refl assms(3)]
  have s1: "self1 = infer_problem_type self lbls" by simp
  from infer_problem_type_unconfigured [OF assms(1), of lbls]
  have stored: "problem_type (config self1) = Some pt"
    unfolding s1 assms(5) .
  have three: "pt = ''regression'' \<or> pt = ''single_label_classification'' \<or>
               pt = ''multi_label_classification''"
    unfolding assms(5) by simp
  have by_type: "compute_loss nn self1 g l =
          (if pt = ''regression'' then as_loss (MSELoss nn g l)
           else if pt = ''single_label_classification'' then as_loss (CrossEntropyLoss nn g l)
           else as_loss (BCEWithLogitsLoss nn g l))" for g l
    using compute_loss_by_type [OF stored, of nn g l] three by auto
  note run = forward_passes_configured [OF stored assms(4)]
  from run have keep: "self2 = self1" "length rs \<le> length later" by simp_all
  have later_passes: "\<forall>k < length rs. \<forall>iv' return_dict' lbls' pooled'.
            later ! k = (iv', return_dict', lbls') \<longrightarrow>
            merged_strategy
              (first (encoder iv'
                 (case return_dict' of Some r \<Rightarrow> r | None \<Rightarrow> use_return_dict (config self1))))
              (pooling_mode self1) = Inr pooled' \<longrightarrow>
            result_loss (rs ! k) =
              (case lbls' of
                 None \<Rightarrow> Inr None
               | Some l \<Rightarrow>
                   if pt = ''regression'' then as_loss (MSELoss nn (head pooled') l)
                   else if pt = ''single_label_classification''
                   then as_loss (CrossEntropyLoss nn (head pooled') l)
                   else as_loss (BCEWithLogitsLoss nn (head pooled') l))"
  proof (intro allI impI)
    fix k iv' return_dict' lbls' pooled'
    assume k: "k < length rs" and p: "later ! k = (iv', return_dict', lbls')"
      and m: "merged_strategy
              (first (encoder iv'
                 (case return_dict' of Some r \<Rightarrow> r | None \<Rightarrow> use_return_dict (config self1))))
              (pooling_mode self1) = Inr pooled'"
    from run [THEN conjunct2, THEN conjunct2, rule_format, OF k p m]
    have "result_loss (rs ! k) =
              (case lbls' of None \<Rightarrow> Inr None | Some l \<Rightarrow> compute_loss nn self1 (head pooled') l)" .
    then show "result_loss (rs ! k) =
              (case lbls' of
                 None \<Rightarrow> Inr None
               | Some l \<Rightarrow>
                   if pt = ''regression'' then as_loss (MSELoss nn (head pooled') l)
                   else if pt = ''single_label_classification''
                   then as_loss (CrossEntropyLoss nn (head pooled') l)
                   else as_loss (BCEWithLogitsLoss nn (head pooled') l))"
      by (cases lbls') (simp_all add: by_type)
  qed
  show ?thesis by (intro conjI stored keep later_passes)
qed

theorem problem_type_inferred_once_witness:
  "\<forall>nn :: (real list, real) torch_nn.
     fst (forward nn three_frames zero_logits
        (init \<lparr>config_num_labels = 4, config_pooling_mode = ''mean'', problem_type = None,
               use_return_dict = True\<rparr>)
        () None (Some \<lparr>dtype = torch_long, content = [2]\<rparr>))
       = \<lparr>num_labels = 4, pooling_mode = ''mean'',
          config = \<lparr>config_num_labels = 4, config_pooling_mode = ''mean'',
                    problem_type = Some ''single_label_classification'',
                    use_return_dict = True\<rparr>\<rparr> \<and>
     fst (forward_passes nn three_frames zero_logits
        \<lparr>num_labels = 4, pooling_mode = ''mean'',
         config = \<lparr>config_num_labels = 4, config_pooling_mode = ''mean'',
                   problem_type = Some ''single_label_classification'',
                   use_return_dict = True\<rparr>\<rparr>
        [((), None, Some \<lparr>dtype = torch_float, content = [0.5]\<rparr>)])
       = \<lparr>num_labels = 4, pooling_mode = ''mean'',
          config = \<lparr>config_num_labels = 4, config_pooling_mode = ''mean'',
                    problem_type = Some ''single_label_classification'',
                    use_return_dict = True\<rparr>\<rparr> \<and>
     result_loss (snd (forward_passes nn three_frames zero_logits
        \<lparr>num_labels = 4, pooling_mode = ''mean'',
         config = \<lparr>config_num_labels = 4, config_pooling_mode = ''mean'',
                   problem_type = Some ''single_label_classification'',
                   use_return_dict = True\<rparr>\<rparr>
        [((), None, Some \<lparr>dtype = torch_float, content = [0.5]\<rparr>)]) ! 0)
       = as_loss (CrossEntropyLoss nn [[0, 0, 0, 0]] \<lparr>dtype = torch_float, content = [0.5]\<rparr>)"
proof
  fix nn :: "(real list, real) torch_nn"
  let ?m0 = "init \<lparr>config_num_labels = 4, config_pooling_mode = ''mean'', problem_type = None,
               use_return_dict = True\<rparr>"
  let ?m1 = "\<lparr>num_labels = 4, pooling_mode = ''mean'',
              config = \<lparr>config_num_labels = 4, config_pooling_mode = ''mean'',
                        problem_type = Some ''single_label_classification'',
                        use_return_dict = True\<rparr>\<rparr>"
  let ?long = "\<lparr>dtype = torch_long, content = [2 :: real]\<rparr>"
  let ?float = "\<lparr>dtype = torch_float, content = [0.5 :: real]\<rparr>"
  let ?later = "[((), None :: bool option, Some ?float)]"
  let ?first = "forward nn three_frames zero_logits ?m0 () None (Some ?long)"
  let ?run = "forward_passes nn three_frames zero_logits ?m1 ?later"
  have h1: "problem_type (config ?m0) = None" by (simp add: init_def)
  have h2: "merged_strategy
           (first (three_frames () (case None of Some r \<Rightarrow> r | None \<Rightarrow> use_return_dict (config ?m0))))
           (pooling_mode ?m0) = Inr [[3, 4]]"
    by (simp add: init_def three_frames_def merged_strategy_def torch_mean_dim1_def)
  have a: "fst ?first = ?m1"
    by (simp add: forward_def init_def three_frames_def merged_strategy_def torch_mean_dim1_def
          infer_problem_type_def Let_def split: sum.splits)
  then have h3: "?first = (?m1, snd ?first)" by (simp add: prod_eq_iff)
  have h4: "?run = (fst ?run, snd ?run)" by simp
  have h5: "''single_label_classification'' =
              (if num_labels ?m0 = 1 then ''regression''
               else if num_labels ?m0 > 1 \<and> (dtype ?long = torch_long \<or> dtype ?long = torch_int)
               then ''single_label_classification''
               else ''multi_label_classification'')"
    by (simp add: init_def)
  note t = problem_type_inferred_once [where encoder = three_frames and head = zero_logits
      and nn = nn and iv = "()" and return_dict = None and lbls = ?long and later = ?later,
      OF h1 h2 h3 h4 h5]
  from t have b: "fst ?run = ?m1" by simp
  have k: "0 < length (snd ?run)"
    using forward_passes_nonempty [of ?later nn three_frames zero_logits ?m1] by simp
  have p: "?later ! 0 = ((), None, Some ?float)" by simp
  have m: "merged_strategy
           (first (three_frames () (case None of Some r \<Rightarrow> r | None \<Rightarrow> use_return_dict (config ?m1))))
           (pooling_mode ?m1) = Inr [[3, 4]]"
    by (simp add: three_frames_def merged_strategy_def torch_mean_dim1_def)
  from t [THEN conjunct2, THEN conjunct2, THEN conjunct2, rule_format, OF k p m]
  have c: "result_loss (snd ?run ! 0) = as_loss (CrossEntropyLoss nn [[0, 0, 0, 0]] ?float)"
    by (simp add: zero_logits_def)
  show "fst ?first = ?m1 \<and> fst ?run = ?m1 \<and>
        result_loss (snd ?run ! 0) = as_loss (CrossEntropyLoss nn [[0, 0, 0, 0]] ?float)"
    by (intro conjI a b c)
qed

subsection \<open>Padding collator\<close>

text \<open>
  Claim C8 as written fails for a batch whose first label is an \<^verbatim>\<open>int\<close> and whose other
  labels are not: the targets 1 and 0.5 are not integer labels, and the dtype chosen for
  stacking them is \<^verbatim>\<open>torch.long\<close>, under which torch stores them as 1 and 0. The padded
  inputs are left opaque.
\<close>

theorem collator_mixed_batch_counterexample:
  "\<not> isinstance_int (PyFloat 0.5) \<and>
   d_type [PyInt 1, PyFloat 0.5] = Inr torch_long \<and>
   DataCollatorCTCWithPadding_call (pad_gives ()) (tensor_gives [1, 0 :: int])
     [\<lparr>input_values = [1 :: real], labels = PyInt 1\<rparr>,
      \<lparr>input_values = [2, 3], labels = PyFloat 0.5\<rparr>]
   = Inr \<lparr>padded = (), batch_labels = \<lparr>dtype = torch_long, content = [1, 0]\<rparr>\<rparr> \<and>
   torch_long \<noteq> torch_float"
  by (simp add: d_type_def DataCollatorCTCWithPadding_call_def pad_gives_def tensor_gives_def)

text \<open>
  Claim C8, as amended. For every non-empty batch whose inputs pad and whose labels
  \<^verbatim>\<open>torch.tensor\<close> stacks, the call returns the padded inputs together with one labels
  tensor, built by a single \<^verbatim>\<open>torch.tensor\<close> call on all the labels in order, whose dtype is
  \<^verbatim>\<open>torch.long\<close> when the first record's label is an \<^verbatim>\<open>int\<close> and \<^verbatim>\<open>torch.float\<close> otherwise; so
  it is \<^verbatim>\<open>torch.long\<close> when every label is an \<^verbatim>\<open>int\<close> and \<^verbatim>\<open>torch.float\<close> when none is.
\<close>

theorem collator_label_dtype:
  assumes "features \<noteq> []"
    and "d = (if isinstance_int (labels (hd features)) then torch_long else torch_float)"
    and "processor_pad (map input_values features) = Inr b"
    and "torch_tensor (map labels features) d = Inr c"
  shows "DataCollatorCTCWithPadding_call processor_pad torch_tensor features
           = Inr \<lparr>padded = b, batch_labels = \<lparr>dtype = d, content = c\<rparr>\<rparr> \<and>
         ((\<forall>f \<in> set features. isinstance_int (labels f)) \<longrightarrow> d = torch_long) \<and>
         ((\<forall>f \<in> set features. \<not> isinstance_int (labels f)) \<longrightarrow> d = torch_float)"
proof -
  from assms(1) obtain f0 rest where fs: "features = f0 # rest" by (cases features) auto
  have dt: "d_type (map labels features) = Inr d"
    by (simp add: d_type_def fs assms(2))
  have call: "DataCollatorCTCWithPadding_call processor_pad torch_tensor features
           = Inr \<lparr>padded = b, batch_labels = \<lparr>dtype = d, content = c\<rparr>\<rparr>"
    using dt assms(3,4) unfolding DataCollatorCTCWithPadding_call_def Let_def by simp
  have all_int: "(\<forall>f \<in> set features. isinstance_int (labels f)) \<longrightarrow> d = torch_long"
    by (simp add: assms(2) fs)
  have no_int: "(\<forall>f \<in> set features. \<not> isinstance_int (labels f)) \<longrightarrow> d = torch_float"
    by (simp add: assms(2) fs)
  show ?thesis by (intro conjI call all_int no_int)
qed

theorem collator_label_dtype_witness:
  "DataCollatorCTCWithPadding_call (pad_gives ()) (tensor_gives [0, 2 :: int])
     [\<lparr>input_values = [1 :: real], labels = PyInt 0\<rparr>,
      \<lparr>input_values = [2, 3], labels = PyInt 2\<rparr>]
   = Inr \<lparr>padded = (), batch_labels = \<lparr>dtype = torch_long, content = [0, 2]\<rparr>\<rparr>"
proof -
  let ?fs = "[\<lparr>input_values = [1 :: real], labels = PyInt 0\<rparr>,
              \<lparr>input_values = [2, 3], labels = PyInt 2\<rparr>]"
  have h1: "?fs \<noteq> []" by simp
  have h2: "torch_long = (if isinstance_int (labels (hd ?fs)) then torch_long else torch_float)"
    by simp
  have h3: "pad_gives () (map input_values ?fs) = Inr ()"
    by (simp add: pad_gives_def)
  have h4: "tensor_gives [0, 2 :: int] (map labels ?fs) torch_long = Inr [0, 2]"
    by (simp add: tensor_gives_def)
  from collator_label_dtype [where processor_pad = "pad_gives ()"
      and torch_tensor = "tensor_gives [0, 2 :: int]", OF h1 h2 h3 h4]
  show ?thesis by (rule conjunct1)
qed

subsection \<open>Pooling strategy: the three reductions\<close>

lemma length_foldl_map2:
  "\<forall>fr \<in> set frs. length fr = n \<Longrightarrow> length acc = n \<Longrightarrow>
   length (foldl (map2 f) acc frs) = n"
proof (induction frs arbitrary: acc)
  case Nil
  then show ?case by simp
next
  case (Cons fr frs)
  from Cons.prems have "length fr = n" "\<forall>fr \<in> set frs. length fr = n" by simp_all
  moreover from this(1) Cons.prems(2) have "length (map2 f acc fr) = n" by simp
  ultimately have "length (foldl (map2 f) (map2 f acc fr) frs) = n"
    using Cons.IH by blast
  then show ?case by simp
qed

lemma nth_foldl_map2:
  "\<forall>fr \<in> set frs. length fr = n \<Longrightarrow> length acc = n \<Longrightarrow> h < n \<Longrightarrow>
   foldl (map2 f) acc frs ! h = foldl f (acc ! h) (map (\<lambda>fr. fr ! h) frs)"
proof (induction frs arbitrary: acc)
  case Nil
  then show ?case by simp
next
  case (Cons fr frs)
  from Cons.prems have fr: "length fr = n" and rest: "\<forall>fr \<in> set frs. length fr = n"
    by simp_all
  from fr Cons.prems(2) have len: "length (map2 f acc fr) = n" by simp
  from fr Cons.prems(2,3) have step: "map2 f acc fr ! h = f (acc ! h) (fr ! h)" by simp
  have "foldl (map2 f) (map2 f acc fr) frs ! h
          = foldl f (map2 f acc fr ! h) (map (\<lambda>fr. fr ! h) frs)"
    using rest len Cons.prems(3) by (rule Cons.IH)
  then show ?case by (simp add: step)
qed

lemma foldl_add_sum_list: "foldl (+) (a :: real) xs = a + sum_list xs"
  by (induction xs arbitrary: a) simp_all

lemma foldl_max_Max: "foldl max (a :: real) xs = Max (set (a # xs))"
proof -
  have flip: "(\<lambda>x (s :: real). max s x) = max"
    by (intro ext) (rule max.commute)
  have "foldl max a xs = fold (\<lambda>x s. max s x) xs a"
    by (rule foldl_conv_fold)
  then have "foldl max a xs = fold max xs a"
    by (simp only: flip)
  then show ?thesis by (simp only: Max.set_eq_fold)
qed

lemma reduce_time_columns:
  assumes "frames \<noteq> []" and "\<forall>fr \<in> set frames. length fr = H"
  shows "reduce_time f frames =
           Inr (map (\<lambda>h. foldl f (hd frames ! h) (map (\<lambda>fr. fr ! h) (tl frames))) [0..<H])"
proof -
  from assms(1) obtain fr0 frs where fs: "frames = fr0 # frs" by (cases frames) auto
  from assms(2) have len: "length fr0 = H" "\<forall>fr \<in> set frs. length fr = length fr0"
    by (simp_all add: fs)
  have "foldl (map2 f) fr0 frs = map (\<lambda>h. foldl f (fr0 ! h) (map (\<lambda>fr. fr ! h) frs)) [0..<H]"
  proof (rule nth_equalityI)
    show "length (foldl (map2 f) fr0 frs) =
          length (map (\<lambda>h. foldl f (fr0 ! h) (map (\<lambda>fr. fr ! h) frs)) [0..<H])"
      using length_foldl_map2 [OF len(2) refl, of f] len(1) by simp
  next
    fix h assume "h < length (foldl (map2 f) fr0 frs)"
    then have h: "h < length fr0" using length_foldl_map2 [OF len(2) refl, of f] by simp
    with nth_foldl_map2 [OF len(2) refl h, of f] len(1)
    show "foldl (map2 f) fr0 frs ! h =
          map (\<lambda>h. foldl f (fr0 ! h) (map (\<lambda>fr. fr ! h) frs)) [0..<H] ! h"
      by simp
  qed
  then show ?thesis by (simp add: fs)
qed

lemma reduce_time_sum:
  assumes "frames \<noteq> []" and "\<forall>fr \<in> set frames. length fr = H"
  shows "reduce_time (+) frames = Inr (map (\<lambda>h. \<Sum>fr\<leftarrow>frames. fr ! h) [0..<H])"
proof -
  from assms(1) obtain fr0 frs where fs: "frames = fr0 # frs" by (cases frames) auto
  show ?thesis
    unfolding reduce_time_columns [OF assms] by (simp add: fs foldl_add_sum_list)
qed

lemma reduce_time_max:
  assumes "frames \<noteq> []" and "\<forall>fr \<in> set frames. length fr = H"
  shows "reduce_time max frames = Inr (map (\<lambda>h. Max ((\<lambda>fr. fr ! h) ` set frames)) [0..<H])"
proof -
  from assms(1) obtain fr0 frs where fs: "frames = fr0 # frs" by (cases frames) auto
  show ?thesis
    unfolding reduce_time_columns [OF assms] by (simp add: fs foldl_max_Max)
qed

text \<open>
  Claim C2. For hidden states in which every utterance has at least one frame and all
  frames have the hidden width \<open>H\<close>, mode mean returns for each utterance and each hidden
  index the arithmetic mean over the frames, mode sum the sum over the frames and mode
  max the maximum over the frames. The frames 1 2, 3 4, 5 6 pool to 3 4 for mean, to
  9 12 for sum and to 5 6 for max. Samples are real numbers here, not floats.
\<close>

theorem merged_strategy_pools_over_time:
  assumes "\<forall>frames \<in> set hs. frames \<noteq> [] \<and> (\<forall>fr \<in> set frames. length fr = H)"
  shows "merged_strategy hs ''mean'' =
           Inr (map (\<lambda>frames. map (\<lambda>h. (\<Sum>fr\<leftarrow>frames. fr ! h) / real (length frames)) [0..<H]) hs) \<and>
         merged_strategy hs ''sum'' =
           Inr (map (\<lambda>frames. map (\<lambda>h. \<Sum>fr\<leftarrow>frames. fr ! h) [0..<H]) hs) \<and>
         merged_strategy hs ''max'' =
           Inr (map (\<lambda>frames. map (\<lambda>h. Max ((\<lambda>fr. fr ! h) ` set frames)) [0..<H]) hs) \<and>
         merged_strategy [[[1, 2], [3, 4], [5, 6]]] ''mean'' = Inr [[3, 4]] \<and>
         merged_strategy [[[1, 2], [3, 4], [5, 6]]] ''sum'' = Inr [[9, 12]] \<and>
         merged_strategy [[[1, 2], [3, 4], [5, 6]]] ''max'' = Inr [[5, 6]]"
proof -
  have s: "\<forall>frames \<in> set hs.
             reduce_time (+) frames = Inr (map (\<lambda>h. \<Sum>fr\<leftarrow>frames. fr ! h) [0..<H])"
    using assms reduce_time_sum by blast
  have x: "\<forall>frames \<in> set hs.
             reduce_time max frames = Inr (map (\<lambda>h. Max ((\<lambda>fr. fr ! h) ` set frames)) [0..<H])"
    using assms reduce_time_max by blast
  have m: "\<forall>frames \<in> set hs.
             (case reduce_time (+) frames of
                Inl e \<Rightarrow> Inl e
              | Inr summed \<Rightarrow> Inr (map (\<lambda>v. v / real (length frames)) summed))
             = Inr (map (\<lambda>h. (\<Sum>fr\<leftarrow>frames. fr ! h) / real (length frames)) [0..<H])"
    using s by (simp add: comp_def)
  have mean: "merged_strategy hs ''mean'' =
           Inr (map (\<lambda>frames. map (\<lambda>h. (\<Sum>fr\<leftarrow>frames. fr ! h) / real (length frames)) [0..<H]) hs)"
    unfolding merged_strategy_def torch_mean_dim1_def
    using map_raising_total [OF m] by simp
  have sum: "merged_strategy hs ''sum'' =
           Inr (map (\<lambda>frames. map (\<lambda>h. \<Sum>fr\<leftarrow>frames. fr ! h) [0..<H]) hs)"
    unfolding merged_strategy_def torch_sum_dim1_def
    using map_raising_total [OF s] by simp
  have max: "merged_strategy hs ''max'' =
           Inr (map (\<lambda>frames. map (\<lambda>h. Max ((\<lambda>fr. fr ! h) ` set frames)) [0..<H]) hs)"
    unfolding merged_strategy_def torch_max_dim1_def
    using map_raising_total [OF x] by simp
  have e1: "merged_strategy [[[1, 2], [3, 4], [5, 6]]] ''mean'' = Inr [[3, 4]]"
    by (simp add: merged_strategy_def torch_mean_dim1_def)
  have e2: "merged_strategy [[[1, 2], [3, 4], [5, 6]]] ''sum'' = Inr [[9, 12]]"
    by (simp add: merged_strategy_def torch_sum_dim1_def)
  have e3: "merged_strategy [[[1, 2], [3, 4], [5, 6]]] ''max'' = Inr [[5, 6]]"
    by (simp add: merged_strategy_def torch_max_dim1_def)
  show ?thesis by (intro conjI mean sum max e1 e2 e3)
qed

theorem merged_strategy_pools_over_time_witness:
  "merged_strategy [[[1, 2], [3, 4], [5, 6]], [[0, 7], [2, 1], [4, - 2]]] ''mean'' = Inr [[3, 4], [2, 2]] \<and>
   merged_strategy [[[1, 2], [3, 4], [5, 6]], [[0, 7], [2, 1], [4, - 2]]] ''sum'' = Inr [[9, 12], [6, 6]] \<and>
   merged_strategy [[[1, 2], [3, 4], [5, 6]], [[0, 7], [2, 1], [4, - 2]]] ''max'' = Inr [[5, 6], [4, 7]]"
proof -
  let ?hs = "[[[1, 2], [3, 4], [5, 6]], [[0, 7], [2, 1], [4, - 2 :: real]]]"
  have h: "\<forall>frames \<in> set ?hs. frames \<noteq> [] \<and> (\<forall>fr \<in> set frames. length fr = 2)"
    by simp
  have two: "[0..<2] = [0, Suc 0]" by (simp add: upt_conv_Cons)
  note t = merged_strategy_pools_over_time [OF h]
  have "merged_strategy ?hs ''mean'' = Inr [[3, 4], [2, 2]]"
    using t [THEN conjunct1] by (simp add: two)
  moreover have "merged_strategy ?hs ''sum'' = Inr [[9, 12], [6, 6]]"
    using t [THEN conjunct2, THEN conjunct1] by (simp add: two)
  moreover have "merged_strategy ?hs ''max'' = Inr [[5, 6], [4, 7]]"
    using t [THEN conjunct2, THEN conjunct2, THEN conjunct1] by (simp add: two)
  ultimately show ?thesis by (intro conjI)
qed

end
